theory Spec2Isabelle
  imports Main
begin

section \<open>Data model\<close>

text \<open>
  The voice front end is a set of React components that share three contexts
  (SpeakerContext, SessionContext, OrderContext).  Every event handler runs to completion
  on the single UI thread; an \<^verbatim>\<open>async\<close> function is cut at each \<^verbatim>\<open>await\<close>
  into the part that runs at the call and the continuation that runs when the awaited
  promise settles.  Each part is one function on the state below.  A handler attached to
  the DOM reads the state of the latest render; a continuation reads the variables that
  were captured when its \<^verbatim>\<open>async\<close> function was called, so those are carried
  in a closure value.
\<close>

text \<open>The outcome of an awaited promise: fulfilled with a value, or rejected with the
  message of the thrown \<^verbatim>\<open>Error\<close>.\<close>

datatype 'a settled = Resolved 'a | Rejected string

text \<open>Body of \<^verbatim>\<open>apiClient.processAudio\<close>.  Its \<^verbatim>\<open>session_id\<close> is
  part of the type in api.ts; no component reads it.\<close>

record process_response =
  success :: bool
  session_id :: string
  audio_url :: "string option"
  response_text :: string
  order_state_changed :: bool

text \<open>Body of \<^verbatim>\<open>apiClient.createNewSession\<close>: \<^verbatim>\<open>success\<close>,
  \<^verbatim>\<open>data.session_id\<close> and \<^verbatim>\<open>data.greeting_audio_url\<close>.\<close>

record new_session_response =
  created :: bool
  new_session_id :: string
  greeting_audio_url :: "string option"

text \<open>Body of \<^verbatim>\<open>apiClient.clearCurrentSession\<close>: \<^verbatim>\<open>success\<close> and
  \<^verbatim>\<open>message\<close>.\<close>

record clear_session_response =
  cleared :: bool
  message :: string

text \<open>The variables \<^verbatim>\<open>sessionId\<close> and \<^verbatim>\<open>restaurantId\<close> as captured by
  the \<^verbatim>\<open>onstop\<close> callback when \<^verbatim>\<open>startRecording\<close> was called.\<close>

record closure =
  capSessionId :: "string option"
  capRestaurantId :: "int option"

text \<open>A MediaRecorder object: its \<^verbatim>\<open>onstop\<close> callback and its state.\<close>

datatype recorder_state = Recording | Inactive

record recorder =
  onstop :: closure
  recState :: recorder_state

text \<open>What is handed to \<^verbatim>\<open>audio.play()\<close>: a response URL, or the URL that
  \<^verbatim>\<open>getCannedPhraseUrl(phrase, restaurantId)\<close> builds (kept symbolic).  The state
  logs every sound played (\<open>played\<close>) and holds those whose playback has not finished
  (\<open>playing\<close>).\<close>

datatype sound = ResponseAudio string | CannedPhrase string "int option"

text \<open>A backend session request that has not settled yet, with what its continuation
  needs: \<^verbatim>\<open>createSession\<close> keeps the restaurant id, \<^verbatim>\<open>handleNewCar\<close> draws
  the car number after it.\<close>

datatype session_call = CreateCall int | ClearCall

text \<open>How a playback can finish: the \<^verbatim>\<open>ended\<close> event, the \<^verbatim>\<open>error\<close> event
  (or a rejected \<^verbatim>\<open>play()\<close>), or a stop/pause from outside.\<close>

datatype playback_outcome = Ended | Errored | Stopped

record world =
  \<comment> \<open>SpeakerContext\<close>
  isAISpeaking :: bool
  isUserSpeaking :: bool
  isAPIProcessing :: bool
  \<comment> \<open>SessionContext (\<^verbatim>\<open>error\<close> is \<open>sessionError\<close>)\<close>
  sessionId :: "string option"
  restaurantId :: "int option"
  greetingAudioUrl :: "string option"
  isLoading :: bool
  sessionError :: "string option"
  \<comment> \<open>OrderContext\<close>
  refreshTrigger :: nat
  \<comment> \<open>local state of the mounted voice component (SpeakerIcon, FloatingMicrophone or
      VoiceRecorder); SpeakerIcon's \<^verbatim>\<open>error\<close> is \<open>iconError\<close>\<close>
  isMouseDown :: bool
  isRecording :: bool
  isProcessing :: bool
  recordingTime :: nat
  iconError :: "string option"
  hasPermission :: "bool option"
  mediaRecorderRef :: "recorder option"
  timerRef :: bool
  audioUrl :: "string option"
  responseText :: string
  \<comment> \<open>local state of CarControlComponent (\<^verbatim>\<open>isProcessing\<close>, \<^verbatim>\<open>error\<close>
      are \<open>carIsProcessing\<close>, \<open>carError\<close>)\<close>
  currentCar :: "nat option"
  carIsProcessing :: bool
  carError :: "string option"
  shouldPlayGreeting :: bool
  \<comment> \<open>the platform: pending promises and events, devices, calls made\<close>
  userMediaPending :: "closure list"
  openStreams :: nat
  intervals :: nat
  stopEvents :: "closure list"
  inFlight :: "closure list"
  played :: "sound list"
  playing :: "sound list"
  timeouts :: nat
  refreshOrderCalls :: nat
  sessionCalls :: "session_call list"

text \<open>JavaScript truthiness of \<^verbatim>\<open>string | null\<close> and \<^verbatim>\<open>number | null\<close>:
  \<^verbatim>\<open>null\<close>, the empty string and \<^verbatim>\<open>0\<close> are falsy.\<close>

definition truthy_str :: "string option \<Rightarrow> bool" where
  "truthy_str x = (case x of None \<Rightarrow> False | Some s \<Rightarrow> s \<noteq> [])"

definition truthy_num :: "int option \<Rightarrow> bool" where
  "truthy_num x = (case x of None \<Rightarrow> False | Some n \<Rightarrow> n \<noteq> 0)"

definition truthy_car :: "nat option \<Rightarrow> bool" where
  "truthy_car x = (case x of None \<Rightarrow> False | Some n \<Rightarrow> n \<noteq> 0)"

text \<open>The variables a callback created in the current render captures.\<close>

definition capture :: "world \<Rightarrow> closure" where
  "capture w = \<lparr>capSessionId = sessionId w, capRestaurantId = restaurantId w\<rparr>"

section \<open>SpeakerContext and OrderContext\<close>

definition setAISpeaking :: "bool \<Rightarrow> world \<Rightarrow> world" where
  "setAISpeaking speaking w = w\<lparr>isAISpeaking := speaking\<rparr>"

definition setUserSpeaking :: "bool \<Rightarrow> world \<Rightarrow> world" where
  "setUserSpeaking speaking w = w\<lparr>isUserSpeaking := speaking\<rparr>"

definition setAPIProcessing :: "bool \<Rightarrow> world \<Rightarrow> world" where
  "setAPIProcessing processing w = w\<lparr>isAPIProcessing := processing\<rparr>"

text \<open>\<^verbatim>\<open>setRefreshTrigger(prev => prev + 1)\<close>.  The counter is a JavaScript number;
  it is modelled as a natural number, exact below \<open>2 ^ 53\<close>.\<close>

definition triggerOrderRefresh :: "world \<Rightarrow> world" where
  "triggerOrderRefresh w = w\<lparr>refreshTrigger := refreshTrigger w + 1\<rparr>"

section \<open>SessionContext\<close>

text \<open>\<^verbatim>\<open>createSession\<close> up to its \<^verbatim>\<open>await\<close>.\<close>

definition createSession_begin :: "world \<Rightarrow> world" where
  "createSession_begin w = w\<lparr>isLoading := True, sessionError := None\<rparr>"

text \<open>\<^verbatim>\<open>createSession\<close> from the settled request on: the \<^verbatim>\<open>try\<close> body, the
  \<^verbatim>\<open>catch\<close> and the \<^verbatim>\<open>finally\<close>.\<close>

definition createSession_settled ::
  "int \<Rightarrow> new_session_response settled \<Rightarrow> world \<Rightarrow> world" where
  "createSession_settled newRestaurantId outcome w =
     (case outcome of
        Resolved response \<Rightarrow>
          if created response
          then w\<lparr>sessionId := Some (new_session_id response),
                 restaurantId := Some newRestaurantId,
                 greetingAudioUrl :=
                   (if truthy_str (greeting_audio_url response)
                    then greeting_audio_url response else None),
                 isLoading := False\<rparr>
          else w\<lparr>sessionError := Some ''Failed to create session'', isLoading := False\<rparr>
      | Rejected errorMessage \<Rightarrow>
          w\<lparr>sessionError := Some errorMessage, isLoading := False\<rparr>)"

text \<open>\<^verbatim>\<open>clearSession\<close> up to its \<^verbatim>\<open>await\<close>: no check for a live session,
  no access to SpeakerContext.\<close>

definition clearSession_begin :: "world \<Rightarrow> world" where
  "clearSession_begin w = w\<lparr>isLoading := True, sessionError := None\<rparr>"

definition clearSession_settled :: "clear_session_response settled \<Rightarrow> world \<Rightarrow> world" where
  "clearSession_settled outcome w =
     (case outcome of
        Resolved response \<Rightarrow>
          if cleared response
          then w\<lparr>sessionId := None, restaurantId := None, greetingAudioUrl := None,
                 isLoading := False\<rparr>
          else w\<lparr>sessionError := Some ''Failed to clear session'', isLoading := False\<rparr>
      | Rejected errorMessage \<Rightarrow>
          w\<lparr>sessionError := Some errorMessage, isLoading := False\<rparr>)"

text \<open>A whole call of \<^verbatim>\<open>clearSession\<close> with nothing running in between.\<close>

definition clearSession :: "clear_session_response settled \<Rightarrow> world \<Rightarrow> world" where
  "clearSession outcome w = clearSession_settled outcome (clearSession_begin w)"

section \<open>Microphone permission\<close>

text \<open>\<^verbatim>\<open>checkMicrophonePermission\<close>, run on mount by each voice component, once its
  \<^verbatim>\<open>getUserMedia\<close> probe has settled.\<close>

definition checkMicrophonePermission :: "bool \<Rightarrow> world \<Rightarrow> world" where
  "checkMicrophonePermission granted w = w\<lparr>hasPermission := Some granted\<rparr>"

section \<open>Stopping a recording\<close>

text \<open>\<^verbatim>\<open>MediaRecorder.stop()\<close> on the recorder held by the ref: a recording recorder
  becomes inactive and its \<^verbatim>\<open>stop\<close> event is queued; on an inactive one nothing
  happens.\<close>

definition recorder_stop :: "world \<Rightarrow> world" where
  "recorder_stop w =
     (case mediaRecorderRef w of
        None \<Rightarrow> w
      | Some r \<Rightarrow>
          (case recState r of
             Inactive \<Rightarrow> w
           | Recording \<Rightarrow>
               w\<lparr>mediaRecorderRef := Some (r\<lparr>recState := Inactive\<rparr>),
                 stopEvents := stopEvents w @ [onstop r]\<rparr>))"

text \<open>\<^verbatim>\<open>if (timerRef.current) { clearInterval(timerRef.current); timerRef.current = null; }\<close>\<close>

definition clearTimer :: "world \<Rightarrow> world" where
  "clearTimer w =
     (if timerRef w then w\<lparr>intervals := intervals w - 1, timerRef := False\<rparr> else w)"

text \<open>SpeakerIcon.tsx, \<^verbatim>\<open>stopRecording\<close>.\<close>

definition SpeakerIcon_stopRecording :: "world \<Rightarrow> world" where
  "SpeakerIcon_stopRecording w =
     (if mediaRecorderRef w \<noteq> None \<and> isRecording w
      then clearTimer (setUserSpeaking False ((recorder_stop w)\<lparr>isRecording := False\<rparr>))
      else w)"

text \<open>FloatingMicrophone, \<^verbatim>\<open>stopRecording\<close>: only the \<^verbatim>\<open>stop()\<close> call; the
  flags are reset by the \<^verbatim>\<open>onstop\<close> callback.\<close>

definition FloatingMicrophone_stopRecording :: "world \<Rightarrow> world" where
  "FloatingMicrophone_stopRecording w =
     (if mediaRecorderRef w \<noteq> None \<and> isRecording w then recorder_stop w else w)"

text \<open>VoiceRecorder.tsx, \<^verbatim>\<open>stopRecording\<close>; \<^verbatim>\<open>onRecordingStop\<close> is an optional
  prop.\<close>

definition VoiceRecorder_stopRecording :: "(world \<Rightarrow> world) option \<Rightarrow> world \<Rightarrow> world" where
  "VoiceRecorder_stopRecording onRecordingStop w =
     (if mediaRecorderRef w \<noteq> None \<and> isRecording w
      then clearTimer
             ((case onRecordingStop of None \<Rightarrow> (\<lambda>v. v) | Some f \<Rightarrow> f)
                ((recorder_stop w)\<lparr>isRecording := False\<rparr>))
      else w)"

section \<open>SpeakerIcon\<close>

text \<open>\<^verbatim>\<open>startRecording\<close> up to \<^verbatim>\<open>await getUserMedia\<close>: the device is requested,
  the callbacks created afterwards will see the variables of this render.\<close>

definition SpeakerIcon_startRecording :: "world \<Rightarrow> world" where
  "SpeakerIcon_startRecording w = w\<lparr>userMediaPending := userMediaPending w @ [capture w]\<rparr>"

text \<open>\<^verbatim>\<open>startRecording\<close> after the stream was granted: a new recorder replaces the
  one in the ref and starts; the flags are set and the interval timer is started.\<close>

definition SpeakerIcon_startRecording_granted :: "closure \<Rightarrow> world \<Rightarrow> world" where
  "SpeakerIcon_startRecording_granted cl w =
     setUserSpeaking True
       (w\<lparr>openStreams := openStreams w + 1,
          mediaRecorderRef := Some \<lparr>onstop = cl, recState = Recording\<rparr>,
          isRecording := True, recordingTime := 0,
          timerRef := True, intervals := intervals w + 1\<rparr>)"

definition SpeakerIcon_startRecording_denied :: "world \<Rightarrow> world" where
  "SpeakerIcon_startRecording_denied w = w\<lparr>hasPermission := Some False\<rparr>"

text \<open>\<^verbatim>\<open>processRecording\<close> up to \<^verbatim>\<open>await apiClient.processAudio\<close>.\<close>

definition SpeakerIcon_processRecording :: "closure \<Rightarrow> world \<Rightarrow> world" where
  "SpeakerIcon_processRecording cl w =
     (if \<not> truthy_str (capSessionId cl) \<or> \<not> truthy_num (capRestaurantId cl) then w
      else w\<lparr>isProcessing := True, iconError := None, inFlight := inFlight w @ [cl]\<rparr>)"

text \<open>The recorder's \<^verbatim>\<open>onstop\<close>: \<^verbatim>\<open>processRecording(audioBlob)\<close> runs up to its
  first \<^verbatim>\<open>await\<close>, then the tracks of the stream are stopped.\<close>

definition SpeakerIcon_onstop :: "closure \<Rightarrow> world \<Rightarrow> world" where
  "SpeakerIcon_onstop cl w =
     (let w1 = SpeakerIcon_processRecording cl w in w1\<lparr>openStreams := openStreams w1 - 1\<rparr>)"

text \<open>The \<^verbatim>\<open>catch\<close> block of \<^verbatim>\<open>processRecording\<close> up to
  \<^verbatim>\<open>await playCannedPhrase('come_again', restaurantId)\<close>; \<^verbatim>\<open>playCannedPhrase\<close>
  calls \<^verbatim>\<open>audio.play()\<close> at once.\<close>

definition SpeakerIcon_catch :: "string \<Rightarrow> closure \<Rightarrow> world \<Rightarrow> world" where
  "SpeakerIcon_catch errorMessage cl w =
     w\<lparr>iconError := Some errorMessage,
       played := played w @ [CannedPhrase ''come_again'' (capRestaurantId cl)],
       playing := playing w @ [CannedPhrase ''come_again'' (capRestaurantId cl)]\<rparr>"

text \<open>The branch \<^verbatim>\<open>if (response.audio_url) { ... } else { setAISpeaking(false) }\<close>:
  a new \<^verbatim>\<open>Audio\<close> is played and only its \<^verbatim>\<open>onended\<close> is set.\<close>

definition SpeakerIcon_playResponse :: "string option \<Rightarrow> world \<Rightarrow> world" where
  "SpeakerIcon_playResponse url w =
     (case url of
        None \<Rightarrow> setAISpeaking False w
      | Some u \<Rightarrow>
          if u = [] then setAISpeaking False w
          else setAISpeaking True
                 (w\<lparr>played := played w @ [ResponseAudio u],
                    playing := playing w @ [ResponseAudio u]\<rparr>))"

text \<open>\<^verbatim>\<open>processRecording\<close> from the settled request on.  On success the
  \<^verbatim>\<open>finally\<close> runs at once; on failure the function waits for the canned phrase
  first.\<close>

definition SpeakerIcon_processRecording_settled ::
  "closure \<Rightarrow> process_response settled \<Rightarrow> world \<Rightarrow> world" where
  "SpeakerIcon_processRecording_settled cl outcome w =
     (case outcome of
        Resolved response \<Rightarrow>
          if success response
          then (let w1 = SpeakerIcon_playResponse (audio_url response) w;
                    w2 = (if order_state_changed response then triggerOrderRefresh w1 else w1)
                in w2\<lparr>isProcessing := False\<rparr>)
          else SpeakerIcon_catch ''Failed to process audio'' cl w
      | Rejected errorMessage \<Rightarrow> SpeakerIcon_catch errorMessage cl w)"

text \<open>\<^verbatim>\<open>playCannedPhrase\<close> returns a promise that \<^verbatim>\<open>onended\<close> resolves and
  \<^verbatim>\<open>onerror\<close> or a rejected \<^verbatim>\<open>play()\<close> rejects; no other event settles it.  A
  promise settles at most once.\<close>

definition playCannedPhrase_settles :: "playback_outcome \<Rightarrow> unit settled option" where
  "playCannedPhrase_settles out =
     (case out of
        Ended \<Rightarrow> Some (Resolved ())
      | Errored \<Rightarrow> Some (Rejected ''Failed to play audio'')
      | Stopped \<Rightarrow> None)"

text \<open>The rest of the \<^verbatim>\<open>catch\<close> block and the \<^verbatim>\<open>finally\<close>, once the canned
  phrase has settled: after the phrase has ended the AI flag is raised and a 3 s timeout
  is set to lower it.\<close>

definition SpeakerIcon_cannedPhrase_settled :: "unit settled \<Rightarrow> world \<Rightarrow> world" where
  "SpeakerIcon_cannedPhrase_settled result w =
     (case result of
        Resolved u \<Rightarrow> (setAISpeaking True w)\<lparr>timeouts := timeouts w + 1, isProcessing := False\<rparr>
      | Rejected audioError \<Rightarrow> w\<lparr>isProcessing := False\<rparr>)"

text \<open>What follows the canned phrase for each way its playback can finish.\<close>

definition SpeakerIcon_cannedPhrase_finished :: "playback_outcome \<Rightarrow> world \<Rightarrow> world" where
  "SpeakerIcon_cannedPhrase_finished out w =
     (case playCannedPhrase_settles out of
        None \<Rightarrow> w
      | Some result \<Rightarrow> SpeakerIcon_cannedPhrase_settled result w)"

text \<open>\<^verbatim>\<open>setTimeout(() => setAISpeaking(false), 3000)\<close> firing.\<close>

definition SpeakerIcon_timeout :: "world \<Rightarrow> world" where
  "SpeakerIcon_timeout w = (setAISpeaking False w)\<lparr>timeouts := timeouts w - 1\<rparr>"

text \<open>The response audio finishing: \<^verbatim>\<open>audio.onended = () => setAISpeaking(false)\<close>
  is the only handler on it.\<close>

definition SpeakerIcon_responseAudio_finished :: "playback_outcome \<Rightarrow> world \<Rightarrow> world" where
  "SpeakerIcon_responseAudio_finished out w =
     (case out of Ended \<Rightarrow> setAISpeaking False w | Errored \<Rightarrow> w | Stopped \<Rightarrow> w)"

text \<open>\<^verbatim>\<open>handleMouseDown\<close>; \<^verbatim>\<open>isDisabled\<close> is a prop.  \<^verbatim>\<open>!hasPermission\<close> holds
  for \<^verbatim>\<open>null\<close> and \<^verbatim>\<open>false\<close>.\<close>

definition handleMouseDown :: "bool \<Rightarrow> world \<Rightarrow> world" where
  "handleMouseDown isDisabled w =
     (if isDisabled then w
      else if isProcessing w then w
      else if hasPermission w \<noteq> Some True then w
      else if isAISpeaking w then w
      else SpeakerIcon_startRecording (w\<lparr>isMouseDown := True\<rparr>))"

definition handleMouseUp :: "world \<Rightarrow> world" where
  "handleMouseUp w = SpeakerIcon_stopRecording (w\<lparr>isMouseDown := False\<rparr>)"

definition handleMouseLeave :: "world \<Rightarrow> world" where
  "handleMouseLeave w =
     (if isMouseDown w then SpeakerIcon_stopRecording (w\<lparr>isMouseDown := False\<rparr>) else w)"

section \<open>FloatingMicrophone\<close>

text \<open>\<^verbatim>\<open>startRecording\<close> up to \<^verbatim>\<open>await getUserMedia\<close>, with its entry guard.\<close>

definition FloatingMicrophone_startRecording :: "world \<Rightarrow> world" where
  "FloatingMicrophone_startRecording w =
     (if \<not> truthy_str (sessionId w) \<or> \<not> truthy_num (restaurantId w)
         \<or> hasPermission w = Some False \<or> isAISpeaking w \<or> isAPIProcessing w
      then w
      else w\<lparr>userMediaPending := userMediaPending w @ [capture w]\<rparr>)"

definition FloatingMicrophone_startRecording_granted :: "closure \<Rightarrow> world \<Rightarrow> world" where
  "FloatingMicrophone_startRecording_granted cl w =
     setUserSpeaking True
       (w\<lparr>openStreams := openStreams w + 1,
          mediaRecorderRef := Some \<lparr>onstop = cl, recState = Recording\<rparr>,
          isRecording := True, recordingTime := 0,
          timerRef := True, intervals := intervals w + 1\<rparr>)"

definition FloatingMicrophone_startRecording_denied :: "world \<Rightarrow> world" where
  "FloatingMicrophone_startRecording_denied w = w\<lparr>hasPermission := Some False\<rparr>"

text \<open>The recorder's \<^verbatim>\<open>onstop\<close> up to \<^verbatim>\<open>await apiClient.processAudio\<close>, which is
  called with the captured \<^verbatim>\<open>sessionId\<close> and \<^verbatim>\<open>restaurantId\<close>.\<close>

definition FloatingMicrophone_onstop :: "closure \<Rightarrow> world \<Rightarrow> world" where
  "FloatingMicrophone_onstop cl w =
     (let w1 = clearTimer
                 (setAPIProcessing True
                    (setUserSpeaking False
                       (w\<lparr>openStreams := openStreams w - 1, isRecording := False\<rparr>)))
      in w1\<lparr>inFlight := inFlight w1 @ [cl]\<rparr>)"

text \<open>\<^verbatim>\<open>onstop\<close> from the settled request on; \<open>orderComponentMounted\<close> is
  \<^verbatim>\<open>orderComponentRef?.current\<close> being set.  Neither the captured nor the current
  \<^verbatim>\<open>sessionId\<close> is read here.\<close>

definition FloatingMicrophone_onstop_settled ::
  "bool \<Rightarrow> process_response settled \<Rightarrow> world \<Rightarrow> world" where
  "FloatingMicrophone_onstop_settled orderComponentMounted outcome w =
     setAPIProcessing False
       (case outcome of
          Resolved response \<Rightarrow>
            if success response
            then (let w1 = w\<lparr>responseText := response_text response,
                             audioUrl := audio_url response\<rparr>;
                      w2 = (if truthy_str (audio_url response)
                            then setAISpeaking True w1 else setAISpeaking False w1)
                  in if order_state_changed response \<and> orderComponentMounted
                     then w2\<lparr>refreshOrderCalls := refreshOrderCalls w2 + 1\<rparr> else w2)
            else w\<lparr>responseText :=
                     (if response_text response \<noteq> [] then response_text response
                      else ''Failed to process audio.'')\<rparr>
        | Rejected errorMessage \<Rightarrow> w\<lparr>responseText := ''Error processing voice order.''\<rparr>)"

text \<open>The button: its \<^verbatim>\<open>disabled\<close> attribute and its \<^verbatim>\<open>onClick\<close>, which is
  \<^verbatim>\<open>isRecording ? stopRecording : startRecording\<close>.\<close>

definition FloatingMicrophone_disabled :: "world \<Rightarrow> bool" where
  "FloatingMicrophone_disabled w =
     (isAISpeaking w \<or> isAPIProcessing w \<or> hasPermission w = Some False
      \<or> \<not> truthy_str (sessionId w) \<or> \<not> truthy_num (restaurantId w))"

definition FloatingMicrophone_onClick :: "world \<Rightarrow> world" where
  "FloatingMicrophone_onClick w =
     (if FloatingMicrophone_disabled w then w
      else if isRecording w then FloatingMicrophone_stopRecording w
      else FloatingMicrophone_startRecording w)"

text \<open>The \<^verbatim>\<open><audio autoPlay>\<close> element and its \<^verbatim>\<open>onPlay\<close>, \<^verbatim>\<open>onEnded\<close>,
  \<^verbatim>\<open>onPause\<close>.  It is rendered while \<^verbatim>\<open>audioUrl\<close> is truthy, unless the
  component renders nothing at all:
  \<^verbatim>\<open>if (hasPermission === false && !sessionId) return null\<close>.\<close>

definition FloatingMicrophone_audioMounted :: "world \<Rightarrow> bool" where
  "FloatingMicrophone_audioMounted w =
     (\<not> (hasPermission w = Some False \<and> \<not> truthy_str (sessionId w))
      \<and> truthy_str (audioUrl w))"

definition FloatingMicrophone_onPlay :: "world \<Rightarrow> world" where
  "FloatingMicrophone_onPlay w = setAISpeaking True w"

definition FloatingMicrophone_onEnded :: "world \<Rightarrow> world" where
  "FloatingMicrophone_onEnded w = setAISpeaking False w"

definition FloatingMicrophone_onPause :: "world \<Rightarrow> world" where
  "FloatingMicrophone_onPause w = setAISpeaking False w"

section \<open>CarControlComponent\<close>

text \<open>\<^verbatim>\<open>restaurant?.id || 1\<close>\<close>

definition restaurantIdOr1 :: "int option \<Rightarrow> int" where
  "restaurantIdOr1 rid = (case rid of None \<Rightarrow> 1 | Some n \<Rightarrow> if n = 0 then 1 else n)"

text \<open>\<^verbatim>\<open>handleNewCar\<close> up to the \<^verbatim>\<open>await\<close> inside \<^verbatim>\<open>createSession\<close>.  The
  function has no guard of its own.\<close>

definition handleNewCar :: "int option \<Rightarrow> world \<Rightarrow> world" where
  "handleNewCar restaurant_id w =
     (let w1 = createSession_begin (w\<lparr>carIsProcessing := True, carError := None\<rparr>)
      in w1\<lparr>sessionCalls := sessionCalls w1 @ [CreateCall (restaurantIdOr1 restaurant_id)]\<rparr>)"

text \<open>The rest of \<^verbatim>\<open>createSession\<close>, which catches its own errors, and then the
  rest of \<^verbatim>\<open>handleNewCar\<close>; \<open>rnd\<close> is \<^verbatim>\<open>Math.floor(Math.random() * 100)\<close>.\<close>

definition handleNewCar_settled ::
  "int \<Rightarrow> new_session_response settled \<Rightarrow> nat \<Rightarrow> world \<Rightarrow> world" where
  "handleNewCar_settled newRestaurantId outcome rnd w =
     (createSession_settled newRestaurantId outcome w)
       \<lparr>currentCar := Some (rnd mod 100 + 1), shouldPlayGreeting := True,
        carIsProcessing := False\<rparr>"

text \<open>\<^verbatim>\<open>handleCarArrived\<close> up to the \<^verbatim>\<open>await\<close> inside \<^verbatim>\<open>clearSession\<close>.\<close>

definition handleCarArrived :: "world \<Rightarrow> world" where
  "handleCarArrived w =
     (if truthy_car (currentCar w)
      then (let w1 = clearSession_begin (w\<lparr>carIsProcessing := True\<rparr>)
            in w1\<lparr>sessionCalls := sessionCalls w1 @ [ClearCall]\<rparr>)
      else w)"

definition handleCarArrived_settled :: "clear_session_response settled \<Rightarrow> world \<Rightarrow> world" where
  "handleCarArrived_settled outcome w =
     (clearSession_settled outcome w)
       \<lparr>currentCar := None, shouldPlayGreeting := False, carIsProcessing := False\<rparr>"

text \<open>The two buttons.  "New Car" is rendered when \<^verbatim>\<open>currentCar\<close> is falsy, "Next
  Customer" when it is truthy; both have
  \<^verbatim>\<open>disabled={isProcessing || isAISpeaking}\<close>, where \<^verbatim>\<open>isProcessing\<close> is the
  component's own flag.\<close>

definition carButton_disabled :: "world \<Rightarrow> bool" where
  "carButton_disabled w = (carIsProcessing w \<or> isAISpeaking w)"

definition click_NewCar :: "int option \<Rightarrow> world \<Rightarrow> world" where
  "click_NewCar restaurant_id w =
     (if truthy_car (currentCar w) \<or> carButton_disabled w then w
      else handleNewCar restaurant_id w)"

definition click_NextCustomer :: "world \<Rightarrow> world" where
  "click_NextCustomer w =
     (if \<not> truthy_car (currentCar w) \<or> carButton_disabled w then w
      else handleCarArrived w)"

text \<open>The greeting AudioPlayer: it gets
  \<^verbatim>\<open>audioUrl={shouldPlayGreeting ? greetingAudioUrl : null}\<close> and renders its audio
  element only for a truthy URL.  Its \<^verbatim>\<open>play\<close>, \<^verbatim>\<open>ended\<close> and \<^verbatim>\<open>error\<close> events
  call the three handlers below.\<close>

definition greetingMounted :: "world \<Rightarrow> bool" where
  "greetingMounted w = (shouldPlayGreeting w \<and> truthy_str (greetingAudioUrl w))"

definition handleAudioPlayStart :: "world \<Rightarrow> world" where
  "handleAudioPlayStart w = setAISpeaking True w"

definition handleAudioPlayEnd :: "world \<Rightarrow> world" where
  "handleAudioPlayEnd w = (setAISpeaking False w)\<lparr>shouldPlayGreeting := False\<rparr>"

definition handleAudioError :: "string \<Rightarrow> world \<Rightarrow> world" where
  "handleAudioError err w =
     (setAISpeaking False w)
       \<lparr>carError := Some (''Audio playback failed: '' @ err), shouldPlayGreeting := False\<rparr>"

section \<open>The page: CarControlComponent with FloatingMicrophone\<close>

text \<open>
  MainLayout mounts CarControlComponent, OrderComponent (with the ref that
  FloatingMicrophone receives) and, through BottomDrawer, FloatingMicrophone.  An event is
  a user action or the completion of something pending; a completion with nothing pending,
  or an event of an element that is not rendered, changes nothing.  Pending promises of
  one kind settle in the order they were made.
\<close>

datatype event =
    ClickMicrophone
  | UserMediaGranted
  | UserMediaDenied
  | RecorderStopEvent
  | ProcessAudioSettled "process_response settled"
  | ResponseAudioPlay
  | ResponseAudioEnded
  | ResponseAudioPause
  | ClickNewCar "int option"
  | ClickNextCustomer
  | CreateSessionSettled "new_session_response settled" nat
  | ClearSessionSettled "clear_session_response settled"
  | GreetingPlay
  | GreetingEnded
  | GreetingError string

fun step :: "event \<Rightarrow> world \<Rightarrow> world" where
  "step ClickMicrophone w = FloatingMicrophone_onClick w"
| "step UserMediaGranted w =
     (case userMediaPending w of
        [] \<Rightarrow> w
      | cl # rest \<Rightarrow> FloatingMicrophone_startRecording_granted cl (w\<lparr>userMediaPending := rest\<rparr>))"
| "step UserMediaDenied w =
     (case userMediaPending w of
        [] \<Rightarrow> w
      | cl # rest \<Rightarrow> FloatingMicrophone_startRecording_denied (w\<lparr>userMediaPending := rest\<rparr>))"
| "step RecorderStopEvent w =
     (case stopEvents w of
        [] \<Rightarrow> w
      | cl # rest \<Rightarrow> FloatingMicrophone_onstop cl (w\<lparr>stopEvents := rest\<rparr>))"
| "step (ProcessAudioSettled outcome) w =
     (case inFlight w of
        [] \<Rightarrow> w
      | cl # rest \<Rightarrow> FloatingMicrophone_onstop_settled True outcome (w\<lparr>inFlight := rest\<rparr>))"
| "step ResponseAudioPlay w =
     (if FloatingMicrophone_audioMounted w then FloatingMicrophone_onPlay w else w)"
| "step ResponseAudioEnded w =
     (if FloatingMicrophone_audioMounted w then FloatingMicrophone_onEnded w else w)"
| "step ResponseAudioPause w =
     (if FloatingMicrophone_audioMounted w then FloatingMicrophone_onPause w else w)"
| "step (ClickNewCar restaurant_id) w = click_NewCar restaurant_id w"
| "step ClickNextCustomer w = click_NextCustomer w"
| "step (CreateSessionSettled outcome rnd) w =
     (case sessionCalls w of
        CreateCall newRestaurantId # rest \<Rightarrow>
          handleNewCar_settled newRestaurantId outcome rnd (w\<lparr>sessionCalls := rest\<rparr>)
      | _ \<Rightarrow> w)"
| "step (ClearSessionSettled outcome) w =
     (case sessionCalls w of
        ClearCall # rest \<Rightarrow> handleCarArrived_settled outcome (w\<lparr>sessionCalls := rest\<rparr>)
      | _ \<Rightarrow> w)"
| "step GreetingPlay w = (if greetingMounted w then handleAudioPlayStart w else w)"
| "step GreetingEnded w = (if greetingMounted w then handleAudioPlayEnd w else w)"
| "step (GreetingError err) w = (if greetingMounted w then handleAudioError err w else w)"

fun run :: "event list \<Rightarrow> world \<Rightarrow> world" where
  "run [] w = w"
| "run (e # es) w = run es (step e w)"

section \<open>A page with SpeakerIcon\<close>

text \<open>
  SpeakerIcon is driven by the same kind of events.  Its parent, which supplies the
  \<^verbatim>\<open>isDisabled\<close> prop, is a parameter.  \<open>SessionCleared\<close> is a whole call of
  \<^verbatim>\<open>clearSession\<close>.  A playback event concerns the oldest sound still playing.  With
  \<^verbatim>\<open>hasPermission === false\<close> the component renders a static element without
  handlers, so the mouse events reach nothing.
\<close>

datatype icon_event =
    MouseDown
  | MouseUp
  | MouseLeave
  | IconUserMediaGranted
  | IconUserMediaDenied
  | IconRecorderStopEvent
  | IconProcessAudioSettled "process_response settled"
  | PlaybackFinished playback_outcome
  | TimeoutFired
  | SessionCleared "clear_session_response settled"

fun icon_step :: "(world \<Rightarrow> bool) \<Rightarrow> icon_event \<Rightarrow> world \<Rightarrow> world" where
  "icon_step isDisabled MouseDown w =
     (if hasPermission w = Some False then w else handleMouseDown (isDisabled w) w)"
| "icon_step isDisabled MouseUp w =
     (if hasPermission w = Some False then w else handleMouseUp w)"
| "icon_step isDisabled MouseLeave w =
     (if hasPermission w = Some False then w else handleMouseLeave w)"
| "icon_step isDisabled IconUserMediaGranted w =
     (case userMediaPending w of
        [] \<Rightarrow> w
      | cl # rest \<Rightarrow> SpeakerIcon_startRecording_granted cl (w\<lparr>userMediaPending := rest\<rparr>))"
| "icon_step isDisabled IconUserMediaDenied w =
     (case userMediaPending w of
        [] \<Rightarrow> w
      | cl # rest \<Rightarrow> SpeakerIcon_startRecording_denied (w\<lparr>userMediaPending := rest\<rparr>))"
| "icon_step isDisabled IconRecorderStopEvent w =
     (case stopEvents w of
        [] \<Rightarrow> w
      | cl # rest \<Rightarrow> SpeakerIcon_onstop cl (w\<lparr>stopEvents := rest\<rparr>))"
| "icon_step isDisabled (IconProcessAudioSettled outcome) w =
     (case inFlight w of
        [] \<Rightarrow> w
      | cl # rest \<Rightarrow> SpeakerIcon_processRecording_settled cl outcome (w\<lparr>inFlight := rest\<rparr>))"
| "icon_step isDisabled (PlaybackFinished out) w =
     (case playing w of
        [] \<Rightarrow> w
      | ResponseAudio u # rest \<Rightarrow> SpeakerIcon_responseAudio_finished out (w\<lparr>playing := rest\<rparr>)
      | CannedPhrase ph rid # rest \<Rightarrow> SpeakerIcon_cannedPhrase_finished out (w\<lparr>playing := rest\<rparr>))"
| "icon_step isDisabled TimeoutFired w = (if timeouts w = 0 then w else SpeakerIcon_timeout w)"
| "icon_step isDisabled (SessionCleared outcome) w = clearSession outcome w"

fun icon_run :: "(world \<Rightarrow> bool) \<Rightarrow> icon_event list \<Rightarrow> world \<Rightarrow> world" where
  "icon_run isDisabled [] w = w"
| "icon_run isDisabled (e # es) w = icon_run isDisabled es (icon_step isDisabled e w)"

section \<open>Reading the speaker state off the flags\<close>

text \<open>
  The code keeps one boolean per activity.  The four values of the speaker state are read
  off the three flags (customer speaking, processing, AI speaking); when more than one flag
  is set, no single value describes the state.  SpeakerIcon keeps the processing flag
  locally (\<open>isProcessing\<close>), FloatingMicrophone in the context (\<open>isAPIProcessing\<close>).
\<close>

datatype SpeakerState = Idle | CustomerSpeaking | Processing | AISpeaking

fun readFlags :: "bool \<Rightarrow> bool \<Rightarrow> bool \<Rightarrow> SpeakerState option" where
  "readFlags False False False = Some Idle"
| "readFlags True False False = Some CustomerSpeaking"
| "readFlags False True False = Some Processing"
| "readFlags False False True = Some AISpeaking"
| "readFlags u p a = None"

definition SpeakerIcon_state :: "world \<Rightarrow> SpeakerState option" where
  "SpeakerIcon_state w = readFlags (isUserSpeaking w) (isProcessing w) (isAISpeaking w)"

definition FloatingMicrophone_state :: "world \<Rightarrow> SpeakerState option" where
  "FloatingMicrophone_state w = readFlags (isUserSpeaking w) (isAPIProcessing w) (isAISpeaking w)"

text \<open>The session as the claims observe it: the live session fields and the error.\<close>

definition noLiveSession :: "world \<Rightarrow> bool" where
  "noLiveSession w = (sessionId w = None \<and> restaurantId w = None \<and> greetingAudioUrl w = None)"

section \<open>Initial state\<close>

text \<open>The initial values of every \<^verbatim>\<open>useState\<close> and \<^verbatim>\<open>useRef\<close>, with nothing
  pending on the platform.\<close>

definition initialWorld :: world where
  "initialWorld =
     \<lparr>isAISpeaking = False, isUserSpeaking = False, isAPIProcessing = False,
      sessionId = None, restaurantId = None, greetingAudioUrl = None,
      isLoading = False, sessionError = None,
      refreshTrigger = 0,
      isMouseDown = False, isRecording = False, isProcessing = False, recordingTime = 0,
      iconError = None, hasPermission = None, mediaRecorderRef = None, timerRef = False,
      audioUrl = None, responseText = [],
      currentCar = None, carIsProcessing = False, carError = None,
      shouldPlayGreeting = False,
      userMediaPending = [], openStreams = 0, intervals = 0, stopEvents = [],
      inFlight = [], played = [], playing = [], timeouts = 0, refreshOrderCalls = 0,
      sessionCalls = []\<rparr>"

section \<open>Concrete scenarios\<close>

text \<open>Backend replies.\<close>

definition session1 :: "new_session_response settled" where
  "session1 = Resolved \<lparr>created = True, new_session_id = ''s1'',
                         greeting_audio_url = Some ''greeting1.mp3''\<rparr>"

definition session2 :: "new_session_response settled" where
  "session2 = Resolved \<lparr>created = True, new_session_id = ''s2'',
                         greeting_audio_url = Some ''greeting2.mp3''\<rparr>"

definition clearedOk :: "clear_session_response settled" where
  "clearedOk = Resolved \<lparr>cleared = True, message = ''Session cleared''\<rparr>"

definition clearRefused :: "clear_session_response settled" where
  "clearRefused = Resolved \<lparr>cleared = False, message = ''No active session''\<rparr>"

definition orderReply :: process_response where
  "orderReply = \<lparr>success = True, session_id = ''s1'', audio_url = Some ''reply.mp3'',
                 response_text = ''Added one burger'', order_state_changed = True\<rparr>"

definition networkError :: "process_response settled" where
  "networkError = Rejected ''Network error: Unable to reach the server''"

text \<open>The page with FloatingMicrophone: a car arrives and is greeted; the customer starts
  a recording; the customer stops it and the utterance is submitted.\<close>

definition firstCar :: "event list" where
  "firstCar = [ClickNewCar (Some 1), CreateSessionSettled session1 6, GreetingPlay, GreetingEnded]"

definition recordingStarted :: "event list" where
  "recordingStarted = firstCar @ [ClickMicrophone, UserMediaGranted]"

definition utteranceSubmitted :: "event list" where
  "utteranceSubmitted = recordingStarted @ [ClickMicrophone, RecorderStopEvent]"

definition microphoneRecording :: world where
  "microphoneRecording = run recordingStarted initialWorld"

definition microphoneProcessing :: world where
  "microphoneProcessing = run utteranceSubmitted initialWorld"

text \<open>The customer has clicked to stop and the recorder's \<^verbatim>\<open>stop\<close> event is
  pending; the utterance was submitted and a successful response arrived; its audio was
  played to the end.\<close>

definition microphoneStopped :: world where
  "microphoneStopped = run (recordingStarted @ [ClickMicrophone]) initialWorld"

definition microphoneReplied :: world where
  "microphoneReplied = step (ProcessAudioSettled (Resolved orderReply)) microphoneProcessing"

definition microphoneDone :: world where
  "microphoneDone = run [ResponseAudioPlay, ResponseAudioEnded] microphoneReplied"

text \<open>"Next Customer" is clicked while the utterance is being processed and the backend
  clears the session; then the response arrives.\<close>

definition sessionEndedWhileProcessing :: world where
  "sessionEndedWhileProcessing =
     run (utteranceSubmitted @ [ClickNextCustomer, ClearSessionSettled clearedOk]) initialWorld"

definition staleCallback :: world where
  "staleCallback = step (ProcessAudioSettled (Resolved orderReply)) sessionEndedWhileProcessing"

text \<open>"Next Customer" is clicked while the customer is recording.\<close>

definition sessionEndedWhileRecording :: world where
  "sessionEndedWhileRecording =
     run (recordingStarted @ [ClickNextCustomer, ClearSessionSettled clearedOk]) initialWorld"

text \<open>\<dots> and then "New Car": the next session is created and its greeting starts.\<close>

definition greetingOverRecording :: world where
  "greetingOverRecording =
     run [ClickNewCar (Some 1), CreateSessionSettled session2 7, GreetingPlay]
       sessionEndedWhileRecording"

text \<open>"New Car" clicked while the previous utterance is still being processed.\<close>

definition newCarWhileProcessing :: world where
  "newCarWhileProcessing =
     run [ClickNewCar (Some 1), CreateSessionSettled session2 7] sessionEndedWhileProcessing"

text \<open>The request of a submitted utterance fails.\<close>

definition microphoneFailure :: world where
  "microphoneFailure = run (utteranceSubmitted @ [ProcessAudioSettled networkError]) initialWorld"

text \<open>Two clicks on the microphone before the first \<^verbatim>\<open>getUserMedia\<close> has settled.\<close>

definition doubleClick :: world where
  "doubleClick =
     run (firstCar @ [ClickMicrophone, ClickMicrophone, UserMediaGranted, UserMediaGranted])
       initialWorld"

text \<open>"New Car" when the backend cannot be reached: \<^verbatim>\<open>createSession\<close> records the
  error and returns, \<^verbatim>\<open>handleNewCar\<close> goes on and sets the car.\<close>

definition newCarFailed :: world where
  "newCarFailed =
     run [ClickNewCar (Some 1),
          CreateSessionSettled (Rejected ''Network error: Unable to reach the server'') 6]
       initialWorld"

text \<open>A page with SpeakerIcon (never disabled by its parent), a live session and the
  microphone permission granted.\<close>

definition neverDisabled :: "world \<Rightarrow> bool" where
  "neverDisabled w = False"

definition iconReady :: world where
  "iconReady =
     checkMicrophonePermission True
       (createSession_settled 1 session1 (createSession_begin initialWorld))"

definition iconRecording :: "icon_event list" where
  "iconRecording = [MouseDown, IconUserMediaGranted]"

definition iconSubmitted :: "icon_event list" where
  "iconSubmitted = iconRecording @ [MouseUp, IconRecorderStopEvent]"

definition iconStopped :: world where
  "iconStopped = icon_run neverDisabled (iconRecording @ [MouseUp]) iconReady"

definition iconProcessing :: world where
  "iconProcessing = icon_run neverDisabled iconSubmitted iconReady"


text \<open>The response audio fails to play.\<close>

definition iconPlaybackError :: world where
  "iconPlaybackError =
     icon_run neverDisabled
       (iconSubmitted @ [IconProcessAudioSettled (Resolved orderReply), PlaybackFinished Errored])
       iconReady"

text \<open>A second press while the first recording is running.\<close>

definition iconWhileRecording :: world where
  "iconWhileRecording = icon_run neverDisabled iconRecording iconReady"

definition iconSecondPress :: world where
  "iconSecondPress =
     icon_run neverDisabled [MouseDown, IconUserMediaGranted] iconWhileRecording"

text \<open>The backend call of a submitted utterance fails; the backend confirms that the
  session was cleared.\<close>

definition clearingOk :: "clear_session_response settled \<Rightarrow> bool" where
  "clearingOk c = (case c of Resolved response \<Rightarrow> cleared response | Rejected errorMessage \<Rightarrow> False)"

definition failedResponse :: "process_response settled \<Rightarrow> bool" where
  "failedResponse outcome =
     (case outcome of Resolved response \<Rightarrow> \<not> success response | Rejected errorMessage \<Rightarrow> True)"

section \<open>Unfolding the handlers\<close>

lemmas context_defs =
  setAISpeaking_def setUserSpeaking_def setAPIProcessing_def triggerOrderRefresh_def
  createSession_begin_def createSession_settled_def clearSession_begin_def
  clearSession_settled_def clearSession_def truthy_str_def truthy_num_def truthy_car_def
  capture_def checkMicrophonePermission_def

lemmas recorder_defs =
  recorder_stop_def clearTimer_def SpeakerIcon_stopRecording_def
  FloatingMicrophone_stopRecording_def VoiceRecorder_stopRecording_def

lemmas icon_defs =
  SpeakerIcon_startRecording_def SpeakerIcon_startRecording_granted_def
  SpeakerIcon_startRecording_denied_def SpeakerIcon_processRecording_def SpeakerIcon_onstop_def
  SpeakerIcon_catch_def SpeakerIcon_playResponse_def SpeakerIcon_processRecording_settled_def
  playCannedPhrase_settles_def SpeakerIcon_cannedPhrase_settled_def
  SpeakerIcon_cannedPhrase_finished_def SpeakerIcon_timeout_def
  SpeakerIcon_responseAudio_finished_def handleMouseDown_def handleMouseUp_def
  handleMouseLeave_def

lemmas microphone_defs =
  FloatingMicrophone_startRecording_def FloatingMicrophone_startRecording_granted_def
  FloatingMicrophone_startRecording_denied_def FloatingMicrophone_onstop_def
  FloatingMicrophone_onstop_settled_def FloatingMicrophone_disabled_def
  FloatingMicrophone_onClick_def FloatingMicrophone_audioMounted_def
  FloatingMicrophone_onPlay_def FloatingMicrophone_onEnded_def FloatingMicrophone_onPause_def

lemmas car_defs =
  restaurantIdOr1_def handleNewCar_def handleNewCar_settled_def handleCarArrived_def
  handleCarArrived_settled_def carButton_disabled_def click_NewCar_def click_NextCustomer_def
  greetingMounted_def handleAudioPlayStart_def handleAudioPlayEnd_def handleAudioError_def

lemmas scenario_defs =
  initialWorld_def session1_def session2_def clearedOk_def clearRefused_def orderReply_def
  networkError_def firstCar_def recordingStarted_def utteranceSubmitted_def
  neverDisabled_def iconReady_def iconRecording_def iconSubmitted_def
  microphoneRecording_def microphoneProcessing_def iconProcessing_def
  microphoneStopped_def microphoneReplied_def microphoneDone_def iconStopped_def

section \<open>Results\<close>

subsection \<open>C10: stopping when nothing is being recorded\<close>

text \<open>
  C10.  Calling \<^verbatim>\<open>stopRecording\<close> when no recording is in progress (the MediaRecorder
  ref is null or the recording flag is false) is a no-op in SpeakerIcon, FloatingMicrophone
  and VoiceRecorder: the whole state is returned as it was, so no \<^verbatim>\<open>stop\<close> event is
  queued and the recording, speaker and timer state are unchanged.
\<close>

theorem stopRecording_noop:
  assumes "mediaRecorderRef w = None \<or> \<not> isRecording w"
  shows "SpeakerIcon_stopRecording w = w
       \<and> FloatingMicrophone_stopRecording w = w
       \<and> VoiceRecorder_stopRecording onRecordingStop w = w"
  using assms
  by (auto simp: SpeakerIcon_stopRecording_def FloatingMicrophone_stopRecording_def
      VoiceRecorder_stopRecording_def)

theorem stopRecording_noop_witness:
  "(mediaRecorderRef initialWorld = None \<or> \<not> isRecording initialWorld)
   \<and> SpeakerIcon_stopRecording initialWorld = initialWorld
   \<and> FloatingMicrophone_stopRecording initialWorld = initialWorld
   \<and> VoiceRecorder_stopRecording None initialWorld = initialWorld"
  using stopRecording_noop [of initialWorld None] by (simp add: initialWorld_def)

subsection \<open>C1: a response that arrives after the session was ended\<close>






subsection \<open>C2: customer and AI speaking at the same time\<close>





subsection \<open>C3: what ending a session does\<close>

text \<open>
  C3, as stated, does not hold.  The claim: \<^verbatim>\<open>endSession\<close> first forces the speaker
  state to Idle, aborting a recording or playback in progress, and afterwards the state is
  Idle with no live session.  On the page with FloatingMicrophone "Next Customer" is
  clicked while the customer is recording: the session is cleared, the customer-speaking
  flag stays set and the microphone stream stays open.
\<close>

theorem endSession_keeps_speaker_counterexample:
  "noLiveSession sessionEndedWhileRecording
   \<and> isUserSpeaking sessionEndedWhileRecording
   \<and> FloatingMicrophone_state sessionEndedWhileRecording = Some CustomerSpeaking
   \<and> openStreams sessionEndedWhileRecording = 1"
  by (simp add: sessionEndedWhileRecording_def noLiveSession_def FloatingMicrophone_state_def
      context_defs recorder_defs microphone_defs car_defs scenario_defs)

text \<open>
  C3, amended.  \<^verbatim>\<open>clearSession\<close> never changes the speaker flags and does not
  stop a recording: the recording flag, the recorder and the open streams are left as
  they are, and so are the sounds SpeakerIcon is playing and FloatingMicrophone's
  \<open>audioUrl\<close>.  It asks the backend first.  When the backend confirms, the session id,
  restaurant id and greeting URL are cleared and no error is recorded; with the greeting
  URL gone the greeting player is no longer rendered, and FloatingMicrophone's reply audio
  is no longer rendered either if the microphone permission was denied, and stays as it
  was otherwise.  When the backend refuses or the request fails, the session fields stay,
  an error is recorded and both audio elements stay as they were.  After
  \<^verbatim>\<open>handleCarArrived\<close> the greeting player is not rendered, whatever the backend
  said.  The "Next Customer" button does nothing while the AI-speaking flag is set.
\<close>

theorem clearSession_effect:
  "isAISpeaking (clearSession c w) = isAISpeaking w
   \<and> isUserSpeaking (clearSession c w) = isUserSpeaking w
   \<and> isAPIProcessing (clearSession c w) = isAPIProcessing w
   \<and> isProcessing (clearSession c w) = isProcessing w
   \<and> isRecording (clearSession c w) = isRecording w
   \<and> mediaRecorderRef (clearSession c w) = mediaRecorderRef w
   \<and> openStreams (clearSession c w) = openStreams w
   \<and> playing (clearSession c w) = playing w
   \<and> audioUrl (clearSession c w) = audioUrl w
   \<and> (clearingOk c \<longrightarrow>
         noLiveSession (clearSession c w) \<and> sessionError (clearSession c w) = None
       \<and> \<not> greetingMounted (clearSession c w)
       \<and> (hasPermission w = Some False \<longrightarrow> \<not> FloatingMicrophone_audioMounted (clearSession c w))
       \<and> (hasPermission w \<noteq> Some False \<longrightarrow>
             FloatingMicrophone_audioMounted (clearSession c w) = FloatingMicrophone_audioMounted w))
   \<and> (\<not> clearingOk c \<longrightarrow>
         sessionId (clearSession c w) = sessionId w
       \<and> restaurantId (clearSession c w) = restaurantId w
       \<and> greetingAudioUrl (clearSession c w) = greetingAudioUrl w
       \<and> sessionError (clearSession c w) \<noteq> None
       \<and> greetingMounted (clearSession c w) = greetingMounted w
       \<and> FloatingMicrophone_audioMounted (clearSession c w) = FloatingMicrophone_audioMounted w)
   \<and> \<not> greetingMounted (handleCarArrived_settled c w)
   \<and> (isAISpeaking w \<longrightarrow> click_NextCustomer w = w)"
  by (cases c)
     (simp_all add: clearingOk_def noLiveSession_def context_defs click_NextCustomer_def
        carButton_disabled_def greetingMounted_def FloatingMicrophone_audioMounted_def
        handleCarArrived_settled_def)

theorem clearSession_effect_witness:
  "clearingOk clearedOk
   \<and> hasPermission iconReady \<noteq> Some False
   \<and> greetingAudioUrl iconReady = Some ''greeting1.mp3''
   \<and> noLiveSession (clearSession clearedOk iconReady)
   \<and> \<not> greetingMounted (clearSession clearedOk iconReady)
   \<and> hasPermission (checkMicrophonePermission False staleCallback) = Some False
   \<and> audioUrl (checkMicrophonePermission False staleCallback) = Some ''reply.mp3''
   \<and> \<not> FloatingMicrophone_audioMounted
         (clearSession clearedOk (checkMicrophonePermission False staleCallback))
   \<and> \<not> clearingOk clearRefused
   \<and> sessionId (clearSession clearRefused iconReady) = Some ''s1''
   \<and> sessionError (clearSession clearRefused iconReady) \<noteq> None
   \<and> isAISpeaking staleCallback
   \<and> click_NextCustomer staleCallback = staleCallback"
proof -
  have h: "clearingOk clearedOk \<and> \<not> clearingOk clearRefused \<and> sessionId iconReady = Some ''s1''"
    "hasPermission iconReady \<noteq> Some False \<and> greetingAudioUrl iconReady = Some ''greeting1.mp3''"
    "hasPermission (checkMicrophonePermission False staleCallback) = Some False"
    "audioUrl (checkMicrophonePermission False staleCallback) = Some ''reply.mp3''"
    "isAISpeaking staleCallback"
    by (simp_all add: clearingOk_def staleCallback_def sessionEndedWhileProcessing_def
        context_defs recorder_defs microphone_defs car_defs scenario_defs)
  from h clearSession_effect [of clearedOk iconReady] clearSession_effect [of clearRefused iconReady]
    clearSession_effect [of clearedOk staleCallback]
    clearSession_effect [of clearedOk "checkMicrophonePermission False staleCallback"]
  show ?thesis by simp
qed

subsection \<open>C4: completion of a playback\<close>

text \<open>The response audio of SpeakerIcon lowers the AI-speaking flag when it ends, and does
  nothing when it fails or is stopped.\<close>

lemma response_playback_completion:
  "\<not> isAISpeaking (SpeakerIcon_responseAudio_finished Ended w)
   \<and> SpeakerIcon_responseAudio_finished Errored w = w
   \<and> SpeakerIcon_responseAudio_finished Stopped w = w"
  by (simp add: SpeakerIcon_responseAudio_finished_def setAISpeaking_def)

text \<open>
  C4.  The claim: every playback signals its completion exactly once, also when it fails
  at once.  In SpeakerIcon a successful response with an audio URL is played and the audio
  then fails: nothing is playing and no timeout is pending, yet \<open>isAISpeaking\<close> is
  still true, and a press on the microphone is refused from then on.  The completion signal
  was given zero times.
\<close>

theorem response_playback_error_leaves_ai_speaking:
  "played iconPlaybackError = [ResponseAudio ''reply.mp3'']
   \<and> playing iconPlaybackError = []
   \<and> timeouts iconPlaybackError = 0
   \<and> isAISpeaking iconPlaybackError
   \<and> icon_step neverDisabled MouseDown iconPlaybackError = iconPlaybackError"
  by (simp add: iconPlaybackError_def context_defs recorder_defs icon_defs scenario_defs)

subsection \<open>C5: a failed request\<close>

lemma readFlags_iff:
  "readFlags u p a = Some Idle \<longleftrightarrow> \<not> u \<and> \<not> p \<and> \<not> a"
  "readFlags u p a = Some CustomerSpeaking \<longleftrightarrow> u \<and> \<not> p \<and> \<not> a"
  "readFlags u p a = Some Processing \<longleftrightarrow> \<not> u \<and> p \<and> \<not> a"
  "readFlags u p a = Some AISpeaking \<longleftrightarrow> \<not> u \<and> \<not> p \<and> a"
  by (cases u; cases p; cases a; simp)+

text \<open>
  What the two pipelines do when the request is rejected or the response has
  \<^verbatim>\<open>success = false\<close>.  FloatingMicrophone (\<open>M\<close>) refreshes no order, plays
  nothing and goes from Processing to Idle.  SpeakerIcon (\<open>I\<close>) refreshes no order,
  records the error text in its error field and plays the canned phrase
  \<^verbatim>\<open>come_again\<close>, staying in Processing meanwhile; when the phrase has ended it is
  AISpeaking until the timeout fires and Idle afterwards; when the phrase fails to play it
  is Idle at once; when the phrase neither ends nor fails it stays in Processing.
\<close>

lemma failure_paths:
  assumes "failedResponse outcome"
  shows "let M = FloatingMicrophone_onstop_settled m outcome w;
             I = SpeakerIcon_processRecording_settled cl outcome w
         in refreshTrigger M = refreshTrigger w
          \<and> refreshOrderCalls M = refreshOrderCalls w
          \<and> played M = played w
          \<and> audioUrl M = audioUrl w
          \<and> (FloatingMicrophone_state w = Some Processing \<longrightarrow> FloatingMicrophone_state M = Some Idle)
          \<and> refreshTrigger I = refreshTrigger w
          \<and> refreshOrderCalls I = refreshOrderCalls w
          \<and> played I = played w @ [CannedPhrase ''come_again'' (capRestaurantId cl)]
          \<and> iconError I \<noteq> None
          \<and> SpeakerIcon_state I = SpeakerIcon_state w
          \<and> (SpeakerIcon_state w = Some Processing \<longrightarrow>
                SpeakerIcon_state (SpeakerIcon_cannedPhrase_finished Ended I) = Some AISpeaking
              \<and> SpeakerIcon_state (SpeakerIcon_timeout (SpeakerIcon_cannedPhrase_finished Ended I))
                  = Some Idle
              \<and> SpeakerIcon_state (SpeakerIcon_cannedPhrase_finished Errored I) = Some Idle
              \<and> SpeakerIcon_state (SpeakerIcon_cannedPhrase_finished Stopped I) = Some Processing)
          \<and> refreshTrigger (SpeakerIcon_timeout (SpeakerIcon_cannedPhrase_finished Ended I))
              = refreshTrigger w"
  using assms
  by (cases outcome)
     (simp_all add: failedResponse_def Let_def FloatingMicrophone_state_def SpeakerIcon_state_def
        readFlags_iff FloatingMicrophone_onstop_settled_def SpeakerIcon_processRecording_settled_def
        SpeakerIcon_catch_def SpeakerIcon_cannedPhrase_finished_def playCannedPhrase_settles_def
        SpeakerIcon_cannedPhrase_settled_def SpeakerIcon_timeout_def context_defs)

text \<open>
  C5.  The claim: on a processing failure the pipeline refreshes no order, plays a canned
  fallback phrase and ends Idle.  On the page with FloatingMicrophone an utterance of
  session \<open>s1\<close> is in flight and its request is rejected: the page is Idle afterwards,
  but nothing was handed to \<^verbatim>\<open>play()\<close>, nothing is playing, \<open>audioUrl\<close> is
  still null and the audio element is not rendered; only the text
  \<open>Error processing voice order.\<close> is stored.  No fallback phrase is played.
\<close>

theorem microphone_failure_plays_no_fallback:
  "failedResponse networkError
   \<and> FloatingMicrophone_state microphoneProcessing = Some Processing
   \<and> inFlight microphoneProcessing = [\<lparr>capSessionId = Some ''s1'', capRestaurantId = Some 1\<rparr>]
   \<and> played microphoneFailure = []
   \<and> playing microphoneFailure = []
   \<and> audioUrl microphoneFailure = None
   \<and> \<not> FloatingMicrophone_audioMounted microphoneFailure
   \<and> responseText microphoneFailure = ''Error processing voice order.''
   \<and> FloatingMicrophone_state microphoneFailure = Some Idle"
  by (simp add: microphoneFailure_def failedResponse_def FloatingMicrophone_state_def
      context_defs recorder_defs microphone_defs car_defs scenario_defs)

subsection \<open>C6: a successful utterance\<close>

text \<open>
  C6, as stated, does not hold.  The claim: for every successful response with an audio
  URL and \<^verbatim>\<open>order_state_changed\<close> the speaker state goes Idle, Processing,
  AISpeaking, Idle and the order refresh token is incremented exactly once.  On the page
  with FloatingMicrophone such a response is received and its audio plays to the end: the
  states are CustomerSpeaking, Processing, AISpeaking, Idle and \<open>refreshTrigger\<close> is
  \<open>0\<close> before and after; \<^verbatim>\<open>refreshOrder\<close> was called once instead.  With
  SpeakerIcon such a response whose audio fails to play leaves AISpeaking, with nothing
  playing and no timeout pending.
\<close>

theorem order_token_counterexample:
  "success orderReply \<and> audio_url orderReply = Some ''reply.mp3'' \<and> order_state_changed orderReply
   \<and> FloatingMicrophone_state microphoneStopped = Some CustomerSpeaking
   \<and> FloatingMicrophone_state microphoneProcessing = Some Processing
   \<and> FloatingMicrophone_state microphoneReplied = Some AISpeaking
   \<and> FloatingMicrophone_state microphoneDone = Some Idle
   \<and> refreshTrigger microphoneProcessing = 0
   \<and> refreshTrigger microphoneDone = 0
   \<and> refreshOrderCalls microphoneDone = 1
   \<and> SpeakerIcon_state iconPlaybackError = Some AISpeaking
   \<and> playing iconPlaybackError = []
   \<and> timeouts iconPlaybackError = 0"
  by (simp add: iconPlaybackError_def FloatingMicrophone_state_def SpeakerIcon_state_def
      context_defs recorder_defs microphone_defs icon_defs car_defs scenario_defs)

lemma icon_successful_utterance:
  assumes "success r" and "audio_url r = Some u" and "u \<noteq> []" and "order_state_changed r"
    and "SpeakerIcon_state w = Some Idle"
    and "stopEvents w = cl # rest" and "inFlight w = []" and "playing w = []"
    and "truthy_str (capSessionId cl)" and "truthy_num (capRestaurantId cl)"
  shows "let w1 = icon_step d IconRecorderStopEvent w;
             w2 = icon_step d (IconProcessAudioSettled (Resolved r)) w1;
             w3 = icon_step d (PlaybackFinished Ended) w2
         in map SpeakerIcon_state [w, w1, w2, w3]
              = [Some Idle, Some Processing, Some AISpeaking, Some Idle]
          \<and> inFlight w1 = [cl]
          \<and> played w2 = played w @ [ResponseAudio u]
          \<and> playing w2 = [ResponseAudio u]
          \<and> playing w3 = []
          \<and> refreshTrigger w1 = refreshTrigger w
          \<and> refreshTrigger w2 = refreshTrigger w + 1
          \<and> refreshTrigger w3 = refreshTrigger w + 1"
  using assms
  by (simp add: Let_def SpeakerIcon_state_def readFlags_iff icon_defs context_defs)

lemma microphone_successful_utterance:
  assumes "success r" and "audio_url r = Some u" and "u \<noteq> []" and "order_state_changed r"
    and "FloatingMicrophone_state v = Some CustomerSpeaking"
    and "stopEvents v = cl # rest" and "inFlight v = []" and "hasPermission v \<noteq> Some False"
  shows "let v1 = step RecorderStopEvent v;
             v2 = step (ProcessAudioSettled (Resolved r)) v1;
             v3 = step ResponseAudioEnded v2
         in map FloatingMicrophone_state [v, v1, v2, v3]
              = [Some CustomerSpeaking, Some Processing, Some AISpeaking, Some Idle]
          \<and> inFlight v1 = [cl]
          \<and> audioUrl v2 = Some u
          \<and> FloatingMicrophone_audioMounted v2
          \<and> refreshOrderCalls v1 = refreshOrderCalls v
          \<and> refreshOrderCalls v2 = refreshOrderCalls v + 1
          \<and> refreshOrderCalls v3 = refreshOrderCalls v + 1
          \<and> refreshTrigger v1 = refreshTrigger v
          \<and> refreshTrigger v2 = refreshTrigger v
          \<and> refreshTrigger v3 = refreshTrigger v"
  using assms
  by (simp add: Let_def FloatingMicrophone_state_def readFlags_iff microphone_defs context_defs
      clearTimer_def)

text \<open>
  C6, amended.  For every successful response with a non-empty audio URL and
  \<^verbatim>\<open>order_state_changed\<close>, on the event loop of each page.  With SpeakerIcon (\<open>w\<close>),
  from Idle with the recorder's \<^verbatim>\<open>stop\<close> event pending and nothing else in flight or
  playing: the stop event submits the utterance and leads to Processing; the response
  hands the audio to \<^verbatim>\<open>play()\<close>, raises \<open>refreshTrigger\<close> by exactly one and leads
  to AISpeaking; when the audio ends the state is Idle and \<open>refreshTrigger\<close> is still
  one larger.  With FloatingMicrophone (\<open>v\<close>), from CustomerSpeaking with the stop event
  pending: the stop event submits the utterance and leads to Processing; the response
  renders the audio element, calls \<^verbatim>\<open>refreshOrder\<close> exactly once and leads to
  AISpeaking; the element's \<^verbatim>\<open>ended\<close> event leads to Idle; \<open>refreshTrigger\<close> is
  never changed.
\<close>

theorem successful_utterance:
  assumes "success r" and "audio_url r = Some u" and "u \<noteq> []" and "order_state_changed r"
    and "SpeakerIcon_state w = Some Idle"
    and "stopEvents w = cl # rest" and "inFlight w = []" and "playing w = []"
    and "truthy_str (capSessionId cl)" and "truthy_num (capRestaurantId cl)"
    and "FloatingMicrophone_state v = Some CustomerSpeaking"
    and "stopEvents v = cl' # rest'" and "inFlight v = []" and "hasPermission v \<noteq> Some False"
  shows "let w1 = icon_step d IconRecorderStopEvent w;
             w2 = icon_step d (IconProcessAudioSettled (Resolved r)) w1;
             w3 = icon_step d (PlaybackFinished Ended) w2;
             v1 = step RecorderStopEvent v;
             v2 = step (ProcessAudioSettled (Resolved r)) v1;
             v3 = step ResponseAudioEnded v2
         in map SpeakerIcon_state [w, w1, w2, w3]
              = [Some Idle, Some Processing, Some AISpeaking, Some Idle]
          \<and> inFlight w1 = [cl]
          \<and> played w2 = played w @ [ResponseAudio u]
          \<and> playing w2 = [ResponseAudio u]
          \<and> playing w3 = []
          \<and> refreshTrigger w1 = refreshTrigger w
          \<and> refreshTrigger w2 = refreshTrigger w + 1
          \<and> refreshTrigger w3 = refreshTrigger w + 1
          \<and> map FloatingMicrophone_state [v, v1, v2, v3]
              = [Some CustomerSpeaking, Some Processing, Some AISpeaking, Some Idle]
          \<and> inFlight v1 = [cl']
          \<and> audioUrl v2 = Some u
          \<and> FloatingMicrophone_audioMounted v2
          \<and> refreshOrderCalls v1 = refreshOrderCalls v
          \<and> refreshOrderCalls v2 = refreshOrderCalls v + 1
          \<and> refreshOrderCalls v3 = refreshOrderCalls v + 1
          \<and> refreshTrigger v1 = refreshTrigger v
          \<and> refreshTrigger v2 = refreshTrigger v
          \<and> refreshTrigger v3 = refreshTrigger v"
proof -
  note icon = icon_successful_utterance [OF assms(1-10), of d, unfolded Let_def]
  note microphone = microphone_successful_utterance [OF assms(1-4) assms(11-14), unfolded Let_def]
  from icon microphone show ?thesis
    unfolding Let_def by blast
qed

theorem successful_utterance_witness:
  "success orderReply \<and> audio_url orderReply = Some ''reply.mp3'' \<and> ''reply.mp3'' \<noteq> []
   \<and> order_state_changed orderReply
   \<and> SpeakerIcon_state iconStopped = Some Idle
   \<and> stopEvents iconStopped = [capture iconReady]
   \<and> inFlight iconStopped = [] \<and> playing iconStopped = []
   \<and> truthy_str (capSessionId (capture iconReady)) \<and> truthy_num (capRestaurantId (capture iconReady))
   \<and> FloatingMicrophone_state microphoneStopped = Some CustomerSpeaking
   \<and> stopEvents microphoneStopped = [capture iconReady]
   \<and> inFlight microphoneStopped = [] \<and> hasPermission microphoneStopped \<noteq> Some False
   \<and> refreshTrigger
        (icon_step neverDisabled (PlaybackFinished Ended)
          (icon_step neverDisabled (IconProcessAudioSettled (Resolved orderReply))
            (icon_step neverDisabled IconRecorderStopEvent iconStopped))) = 1
   \<and> refreshOrderCalls
        (step ResponseAudioEnded
          (step (ProcessAudioSettled (Resolved orderReply))
            (step RecorderStopEvent microphoneStopped))) = 1
   \<and> refreshTrigger
        (step ResponseAudioEnded
          (step (ProcessAudioSettled (Resolved orderReply))
            (step RecorderStopEvent microphoneStopped))) = 0"
proof -
  have h: "success orderReply" "audio_url orderReply = Some ''reply.mp3''" "''reply.mp3'' \<noteq> []"
    "order_state_changed orderReply"
    "SpeakerIcon_state iconStopped = Some Idle"
    "stopEvents iconStopped = capture iconReady # []"
    "inFlight iconStopped = []" "playing iconStopped = []"
    "truthy_str (capSessionId (capture iconReady))" "truthy_num (capRestaurantId (capture iconReady))"
    "FloatingMicrophone_state microphoneStopped = Some CustomerSpeaking"
    "stopEvents microphoneStopped = capture iconReady # []"
    "inFlight microphoneStopped = []" "hasPermission microphoneStopped \<noteq> Some False"
    by (simp_all add: SpeakerIcon_state_def FloatingMicrophone_state_def
        context_defs recorder_defs microphone_defs icon_defs car_defs scenario_defs)
  have z: "refreshTrigger iconStopped = 0" "refreshOrderCalls microphoneStopped = 0"
    "refreshTrigger microphoneStopped = 0"
    by (simp_all add: context_defs recorder_defs microphone_defs icon_defs car_defs scenario_defs)
  from successful_utterance [OF h, of neverDisabled] h z show ?thesis
    by (simp add: Let_def del: icon_step.simps step.simps)
qed

subsection \<open>C7: starting a capture\<close>

text \<open>
  C7, as stated, does not hold.  The claim: a press made while the speaker state is not
  Idle, such as a second press during a recording, does nothing and opens no second
  device.  In SpeakerIcon, with a recording running (CustomerSpeaking, one stream open), a
  second \<^verbatim>\<open>handleMouseDown\<close> changes the state, and once its microphone request is
  granted two streams are open.  In FloatingMicrophone two clicks before the first request
  has settled also open two streams.
\<close>

theorem second_press_counterexample:
  "SpeakerIcon_state iconWhileRecording = Some CustomerSpeaking
   \<and> openStreams iconWhileRecording = 1
   \<and> icon_step neverDisabled MouseDown iconWhileRecording \<noteq> iconWhileRecording
   \<and> openStreams iconSecondPress = 2
   \<and> openStreams doubleClick = 2"
  by (simp add: iconWhileRecording_def iconSecondPress_def doubleClick_def SpeakerIcon_state_def
      context_defs recorder_defs icon_defs microphone_defs car_defs scenario_defs)

text \<open>
  C7, amended.  A press does nothing (the state is unchanged, no microphone request is
  made) while the AI is speaking or the pipeline is processing; also, in SpeakerIcon, when
  the component is disabled or the permission is not granted, and in FloatingMicrophone,
  when the permission is denied or there is no session.  The entry guards do not look
  at the recording flag: otherwise SpeakerIcon's \<^verbatim>\<open>handleMouseDown\<close> requests the
  microphone, and FloatingMicrophone's button stops the recording when one is running and
  requests the microphone when none is.
\<close>

theorem capture_entry_guard:
  "(d \<or> isProcessing w \<or> hasPermission w \<noteq> Some True \<or> isAISpeaking w
      \<longrightarrow> handleMouseDown d w = w)
   \<and> (\<not> d \<and> \<not> isProcessing w \<and> hasPermission w = Some True \<and> \<not> isAISpeaking w
      \<longrightarrow> userMediaPending (handleMouseDown d w) = userMediaPending w @ [capture w])
   \<and> (isAISpeaking w \<or> isAPIProcessing w \<or> hasPermission w = Some False
        \<or> \<not> truthy_str (sessionId w) \<or> \<not> truthy_num (restaurantId w)
      \<longrightarrow> FloatingMicrophone_startRecording w = w \<and> FloatingMicrophone_onClick w = w)
   \<and> (\<not> FloatingMicrophone_disabled w \<and> isRecording w
      \<longrightarrow> FloatingMicrophone_onClick w = FloatingMicrophone_stopRecording w)
   \<and> (\<not> FloatingMicrophone_disabled w \<and> \<not> isRecording w
      \<longrightarrow> userMediaPending (FloatingMicrophone_onClick w) = userMediaPending w @ [capture w])"
  by (auto simp: handleMouseDown_def SpeakerIcon_startRecording_def capture_def
      FloatingMicrophone_startRecording_def FloatingMicrophone_onClick_def
      FloatingMicrophone_disabled_def)

theorem capture_entry_guard_witness:
  "isAISpeaking staleCallback
   \<and> handleMouseDown False staleCallback = staleCallback
   \<and> FloatingMicrophone_startRecording staleCallback = staleCallback
   \<and> FloatingMicrophone_onClick staleCallback = staleCallback
   \<and> \<not> isProcessing iconReady \<and> hasPermission iconReady = Some True \<and> \<not> isAISpeaking iconReady
   \<and> userMediaPending (handleMouseDown False iconReady) = [capture iconReady]
   \<and> \<not> FloatingMicrophone_disabled microphoneRecording \<and> isRecording microphoneRecording
   \<and> FloatingMicrophone_onClick microphoneRecording
       = FloatingMicrophone_stopRecording microphoneRecording
   \<and> \<not> FloatingMicrophone_disabled iconReady \<and> \<not> isRecording iconReady
   \<and> userMediaPending (FloatingMicrophone_onClick iconReady) = [capture iconReady]"
proof -
  have h: "isAISpeaking staleCallback"
    "\<not> isProcessing iconReady \<and> hasPermission iconReady = Some True \<and> \<not> isAISpeaking iconReady"
    "\<not> FloatingMicrophone_disabled microphoneRecording \<and> isRecording microphoneRecording"
    "\<not> FloatingMicrophone_disabled iconReady \<and> \<not> isRecording iconReady"
    "userMediaPending iconReady = []"
    by (simp_all add: staleCallback_def sessionEndedWhileProcessing_def
        context_defs recorder_defs microphone_defs car_defs scenario_defs)
  from h capture_entry_guard [of False staleCallback] capture_entry_guard [of False iconReady]
    capture_entry_guard [of False microphoneRecording]
  show ?thesis by simp
qed

subsection \<open>C8: "New Car" in the middle of an interaction\<close>

text \<open>The "New Car" button does nothing while the AI-speaking flag is set.\<close>

lemma new_car_refused_while_ai_speaks:
  "isAISpeaking w \<Longrightarrow> click_NewCar rid w = w"
  by (simp add: click_NewCar_def carButton_disabled_def)

text \<open>
  C8.  The claim: while the customer is speaking, the pipeline is processing or the AI is
  speaking, "New Car" creates no session.  On the page with FloatingMicrophone, with the
  utterance of the previous customer still being processed and no session, "New Car"
  creates session \<open>s2\<close>; the page is still in Processing afterwards.  The same happens
  while the previous customer's recording is still running.
\<close>

theorem new_car_while_processing:
  "FloatingMicrophone_state sessionEndedWhileProcessing = Some Processing
   \<and> sessionId sessionEndedWhileProcessing = None
   \<and> FloatingMicrophone_state newCarWhileProcessing = Some Processing
   \<and> sessionId newCarWhileProcessing = Some ''s2''
   \<and> FloatingMicrophone_state sessionEndedWhileRecording = Some CustomerSpeaking
   \<and> sessionId sessionEndedWhileRecording = None
   \<and> isUserSpeaking greetingOverRecording
   \<and> sessionId greetingOverRecording = Some ''s2''"
  by (simp add: sessionEndedWhileProcessing_def newCarWhileProcessing_def
      sessionEndedWhileRecording_def greetingOverRecording_def FloatingMicrophone_state_def
      context_defs recorder_defs microphone_defs car_defs scenario_defs)

subsection \<open>C9: ending a session twice\<close>

text \<open>
  C9, as stated, does not hold.  The claim: ending a session twice gives the same
  observable state as ending it once, and ending with no live session is a no-op.  After a
  failed "New Car" there is no live session and an error is recorded; "Next Customer" then
  calls \<^verbatim>\<open>clearSession\<close>, which erases the error.  And when the backend confirms the
  first call and refuses the second, the second call records an error that the first did
  not.
\<close>

theorem endSession_not_noop_counterexample:
  "noLiveSession newCarFailed
   \<and> sessionError newCarFailed = Some ''Network error: Unable to reach the server''
   \<and> sessionError (run [ClickNextCustomer, ClearSessionSettled clearedOk] newCarFailed) = None
   \<and> sessionError (clearSession clearedOk newCarFailed) = None
   \<and> sessionError (clearSession clearedOk iconReady) = None
   \<and> sessionError (clearSession clearRefused (clearSession clearedOk iconReady))
       = Some ''Failed to clear session''"
  by (simp add: newCarFailed_def noLiveSession_def
      context_defs recorder_defs microphone_defs car_defs scenario_defs)

lemma clearSession_fixed_point:
  "clearSession c w = w \<longleftrightarrow>
     \<not> isLoading w
     \<and> (case c of
          Resolved response \<Rightarrow>
            if cleared response then noLiveSession w \<and> sessionError w = None
            else sessionError w = Some ''Failed to clear session''
        | Rejected errorMessage \<Rightarrow> sessionError w = Some errorMessage)"
proof
  assume eq: "clearSession c w = w"
  have l: "isLoading (clearSession c w) = False"
    by (cases c) (simp_all add: context_defs)
  have f: "sessionId (clearSession c w) = sessionId w"
    "restaurantId (clearSession c w) = restaurantId w"
    "greetingAudioUrl (clearSession c w) = greetingAudioUrl w"
    "sessionError (clearSession c w) = sessionError w"
    using eq by simp_all
  from l eq have "\<not> isLoading w" by simp
  moreover from f have "case c of
          Resolved response \<Rightarrow>
            if cleared response then noLiveSession w \<and> sessionError w = None
            else sessionError w = Some ''Failed to clear session''
        | Rejected errorMessage \<Rightarrow> sessionError w = Some errorMessage"
    by (cases c) (auto simp: context_defs noLiveSession_def split: if_splits)
  ultimately show "\<not> isLoading w
     \<and> (case c of
          Resolved response \<Rightarrow>
            if cleared response then noLiveSession w \<and> sessionError w = None
            else sessionError w = Some ''Failed to clear session''
        | Rejected errorMessage \<Rightarrow> sessionError w = Some errorMessage)" by simp
next
  assume "\<not> isLoading w
     \<and> (case c of
          Resolved response \<Rightarrow>
            if cleared response then noLiveSession w \<and> sessionError w = None
            else sessionError w = Some ''Failed to clear session''
        | Rejected errorMessage \<Rightarrow> sessionError w = Some errorMessage)"
  then show "clearSession c w = w"
    by (cases c) (auto simp: context_defs noLiveSession_def split: if_splits)
qed

text \<open>
  C9, amended.  \<^verbatim>\<open>clearSession\<close> is idempotent for a repeated backend reply: two calls
  that get the same reply leave the whole state as one call does.  A call leaves the state
  as it was exactly when no request was in progress and either the backend confirms and
  there was neither a live session nor a recorded error, or the backend refuses (or the
  request fails) and the error this records is the one already recorded.  There is no
  check for a live session: whenever a car is set, \<^verbatim>\<open>handleCarArrived\<close> sends the
  request to the backend.
\<close>

theorem clearSession_idempotent:
  "clearSession c (clearSession c w) = clearSession c w
   \<and> (clearSession c w = w \<longleftrightarrow>
        \<not> isLoading w
        \<and> (case c of
             Resolved response \<Rightarrow>
               if cleared response then noLiveSession w \<and> sessionError w = None
               else sessionError w = Some ''Failed to clear session''
           | Rejected errorMessage \<Rightarrow> sessionError w = Some errorMessage))
   \<and> (truthy_car (currentCar w) \<longrightarrow> sessionCalls (handleCarArrived w) = sessionCalls w @ [ClearCall])"
proof -
  have a: "clearSession c (clearSession c w) = clearSession c w"
    by (cases c) (auto simp: context_defs)
  have b: "truthy_car (currentCar w) \<longrightarrow> sessionCalls (handleCarArrived w) = sessionCalls w @ [ClearCall]"
    by (simp add: handleCarArrived_def clearSession_begin_def Let_def)
  from a b clearSession_fixed_point [of c w] show ?thesis by blast
qed

theorem clearSession_idempotent_witness:
  "\<not> isLoading initialWorld \<and> noLiveSession initialWorld \<and> sessionError initialWorld = None
   \<and> clearSession clearedOk initialWorld = initialWorld
   \<and> clearSession clearedOk (clearSession clearedOk iconReady) = clearSession clearedOk iconReady
   \<and> \<not> isLoading newCarFailed
   \<and> sessionError newCarFailed = Some ''Network error: Unable to reach the server''
   \<and> clearSession (Rejected ''Network error: Unable to reach the server'') newCarFailed
       = newCarFailed
   \<and> clearSession clearedOk newCarFailed \<noteq> newCarFailed
   \<and> truthy_car (currentCar newCarFailed)
   \<and> noLiveSession newCarFailed
   \<and> sessionCalls (handleCarArrived newCarFailed) = [ClearCall]"
proof -
  have h: "\<not> isLoading initialWorld \<and> noLiveSession initialWorld \<and> sessionError initialWorld = None"
    "\<not> isLoading newCarFailed"
    "sessionError newCarFailed = Some ''Network error: Unable to reach the server''"
    "truthy_car (currentCar newCarFailed)" "noLiveSession newCarFailed"
    "sessionCalls newCarFailed = []"
    "cleared \<lparr>cleared = True, message = ''Session cleared''\<rparr>"
    by (simp_all add: noLiveSession_def newCarFailed_def context_defs car_defs scenario_defs)
  from h clearSession_idempotent [of clearedOk initialWorld]
    clearSession_idempotent [of clearedOk iconReady]
    clearSession_idempotent [of "Rejected ''Network error: Unable to reach the server''" newCarFailed]
    clearSession_idempotent [of clearedOk newCarFailed]
  show ?thesis by (simp add: clearedOk_def)
qed

end
